theory Spec2Isabelle
  imports Complex_Main "HOL-Library.Sublist"
begin

section \<open>Data model (the schema of the marketplace)\<close>

text \<open>
  The TypeScript interfaces of the schema become records. A JavaScript \<open>number\<close> that
  carries an identifier is an \<open>int\<close>. A rating is a whole number of stars and is an
  \<open>int\<close> as well, in range or not; what the index arithmetic of the histogram does with
  a fractional double is floating point and no part of this embedding. A field of type
  \<open>T | null\<close> is a \<open>T option\<close>; a \<open>Date\<close> is its time stamp. Field names that several
  interfaces share (\<open>id\<close>, \<open>userId\<close>, \<open>createdAt\<close>) carry the interface as a prefix,
  since record fields are global names.
\<close>

record AppReview =
  review_id :: int
  review_appId :: int
  userId :: int
  rating :: int
  reviewText :: "string option"
  review_createdAt :: int

record OAuthApp =
  app_id :: int
  app_userId :: int
  name :: string
  description :: string
  clientId :: "string option"
  clientSecret :: "string option"
  homepageUrl :: string
  callbackUrl :: string
  isPublished :: bool
  verificationStatus :: string
  logoUrl :: "string option"
  app_createdAt :: int
  app_updatedAt :: int
  isListed :: bool

section \<open>Rating summary\<close>

subsection \<open>Division of numbers\<close>

text \<open>
  The result of JavaScript's \<open>x / y\<close>: \<open>NaN\<close> for \<open>0 / 0\<close>, an infinity for any other
  division by zero, and the quotient otherwise. The quotient is exact: the rounding of
  IEEE doubles and the sign of zero are not modelled.
\<close>

datatype JsFloat = NotANumber | PlusInfinity | MinusInfinity | Finite rat

definition jsDivide :: "rat \<Rightarrow> rat \<Rightarrow> JsFloat" where
  "jsDivide x y =
     (if y = 0
      then (if x = 0 then NotANumber else if x > 0 then PlusInfinity else MinusInfinity)
      else Finite (x / y))"

subsection \<open>\<open>calculateReviewStats\<close> of the reviews page\<close>

text \<open>
  The object the function returns. The percentages are computed only where
  \<open>totalReviews\<close> is positive, so they are ordinary numbers.
\<close>

record ReviewStats =
  averageRating :: JsFloat
  totalReviews :: nat
  ratingCounts :: "nat list"
  percentages :: "rat list"

text \<open>
  The body of the \<open>forEach\<close> callback:
  \<^verbatim>\<open>if (review.rating > 0 && review.rating <= 5) { ratingCounts[5 - review.rating]++; }\<close>
  Under the guard the index \<open>5 - rating\<close> is one of \<open>0..4\<close>.
\<close>

definition countRating :: "nat list \<Rightarrow> AppReview \<Rightarrow> nat list" where
  "countRating counts review =
     (if rating review > 0 \<and> rating review \<le> 5
      then counts[nat (5 - rating review) := counts ! nat (5 - rating review) + 1]
      else counts)"

text \<open>
  \<open>reviews\<close> is the data of a query: \<open>None\<close> while it is \<open>undefined\<close>. The guard
  \<open>!reviews?.length\<close> holds for \<open>undefined\<close> and for the empty array.
\<close>

definition emptyStats :: ReviewStats where
  "emptyStats =
     \<lparr>averageRating = Finite 0, totalReviews = 0,
      ratingCounts = [0, 0, 0, 0, 0], percentages = [0, 0, 0, 0, 0]\<rparr>"

definition calculateReviewStats :: "AppReview list option \<Rightarrow> ReviewStats" where
  "calculateReviewStats reviews =
     (case reviews of
        None \<Rightarrow> emptyStats
      | Some rs \<Rightarrow>
          if length rs = 0 then emptyStats
          else
            let total = length rs;
                average =
                  jsDivide (of_int (foldl (\<lambda>sum review. sum + rating review) 0 rs))
                    (of_nat total);
                counts = foldl countRating [0, 0, 0, 0, 0] rs;
                percents = map (\<lambda>count. (of_nat count / of_nat total) * 100) counts
            in \<lparr>averageRating = average, totalReviews = total,
                ratingCounts = counts, percentages = percents\<rparr>)"

subsection \<open>\<open>averageRating\<close> and \<open>ratingCounts\<close> of the details page\<close>

definition details_averageRating :: "AppReview list option \<Rightarrow> JsFloat" where
  "details_averageRating reviews =
     (case reviews of
        None \<Rightarrow> Finite 0
      | Some rs \<Rightarrow>
          if length rs \<noteq> 0
          then jsDivide (of_int (foldl (\<lambda>sum review. sum + rating review) 0 rs))
                 (of_nat (length rs))
          else Finite 0)"

definition details_ratingCounts :: "AppReview list option \<Rightarrow> nat list" where
  "details_ratingCounts reviews =
     (case reviews of
        None \<Rightarrow> [0, 0, 0, 0, 0]
      | Some rs \<Rightarrow>
          if length rs \<noteq> 0 then foldl countRating [0, 0, 0, 0, 0] rs
          else [0, 0, 0, 0, 0])"

text \<open>
  The summaries are stated against two notions: a review is valid when its rating is
  one of \<open>1..5\<close>, and bucket \<open>i\<close> of a list counts the reviews whose rating is exactly
  \<open>5 - i\<close>.
\<close>

definition validRating :: "AppReview \<Rightarrow> bool" where
  "validRating review = (1 \<le> rating review \<and> rating review \<le> 5)"

definition bucket :: "nat \<Rightarrow> AppReview list \<Rightarrow> nat" where
  "bucket i rs = length (filter (\<lambda>review. rating review = 5 - int i) rs)"

text \<open>Example data: a review by user \<open>uid\<close> with the given rating and no text.\<close>

definition review_of :: "int \<Rightarrow> int \<Rightarrow> AppReview" where
  "review_of uid r =
     \<lparr>review_id = uid, review_appId = 1, userId = uid, rating = r,
      reviewText = None, review_createdAt = 0\<rparr>"

subsection \<open>The star figure of the marketplace card\<close>

text \<open>
  \<open>AppCard\<close> renders \<^verbatim>\<open>{Math.floor(Math.random() * 5) + 1} stars\<close> under a comment
  that reads: This would be actual rating in a real app. The value drawn by \<open>Math.random()\<close>, a
  number in \<open>[0, 1)\<close>, is the second argument; the card's application is the first and
  is not used.
\<close>

definition AppCard_stars :: "OAuthApp \<Rightarrow> rat \<Rightarrow> int" where
  "AppCard_stars card_app random = \<lfloor>random * 5\<rfloor> + 1"

section \<open>Review submission\<close>

text \<open>
  Modelled from the spec: the error taxonomy of review submission (section 7) and the
  candidate \<open>{userId, rating, text}\<close> of \<open>validateSubmission\<close> (section 4.2). The sources
  declare neither. The rating of a candidate is any number, so it is a \<open>rat\<close>; a text
  that is \<open>null\<close> or absent is \<open>None\<close>.
\<close>

datatype ReviewError = DuplicateReviewError | InvalidRatingError

record Candidate =
  cand_userId :: int
  cand_rating :: rat
  cand_text :: "string option"

definition validRatingValue :: "rat \<Rightarrow> bool" where
  "validRatingValue r = (r \<in> set [1, 2, 3, 4, 5])"

text \<open>
  Modelled from the spec: \<open>validateSubmission\<close> of the Rating Aggregator (section 4.2),
  which \<open>POST /apps/{id}/reviews\<close> invokes before the store inserts a row (section 6).
  The sources hold only its caller, \<open>submitReviewMutation\<close> of the reviews page, which
  posts the form to \<open>/api/oauth-apps/:id/reviews\<close>; the handler of that route and
  whatever it checks are missing. In the spec's words it fails with
  DuplicateReviewError if existingReviews already contains an entry with the same
  userId; fails with InvalidRatingError if candidate.rating is not an integer in [1,5];
  otherwise succeeds and returns the accepted record unchanged, a text that is null or
  absent being normalised to the empty string. The checks are made in the order in
  which the spec lists them.
\<close>

definition validateSubmission :: "AppReview list \<Rightarrow> Candidate \<Rightarrow> ReviewError + Candidate" where
  "validateSubmission existingReviews candidate =
     (if cand_userId candidate \<in> userId ` set existingReviews then Inl DuplicateReviewError
      else if \<not> validRatingValue (cand_rating candidate) then Inl InvalidRatingError
      else Inr (candidate\<lparr>cand_text :=
                  Some (case cand_text candidate of None \<Rightarrow> '''' | Some t \<Rightarrow> t)\<rparr>))"

section \<open>The marketplace page\<close>

text \<open>
  Strings are ASCII text, one \<open>char\<close> per character. \<open>trim\<close> strips the white space and
  line terminators of that range from both ends, \<open>toLowerCase\<close> maps \<open>A..Z\<close> to \<open>a..z\<close>
  and \<open>includes_str s q\<close> is \<open>s.includes(q)\<close>: whether \<open>q\<close> occurs in \<open>s\<close> at some
  position.
\<close>

definition isWhiteSpace :: "char \<Rightarrow> bool" where
  "isWhiteSpace c = (c \<in> set [CHR 0x09, CHR 0x0A, CHR 0x0B, CHR 0x0C, CHR 0x0D, CHR '' ''])"

definition trim :: "string \<Rightarrow> string" where
  "trim s = rev (dropWhile isWhiteSpace (rev (dropWhile isWhiteSpace s)))"

definition toLowerChar :: "char \<Rightarrow> char" where
  "toLowerChar c =
     (case map_of (zip ''ABCDEFGHIJKLMNOPQRSTUVWXYZ'' ''abcdefghijklmnopqrstuvwxyz'') c of
        Some l \<Rightarrow> l
      | None \<Rightarrow> c)"

definition toLowerCase :: "string \<Rightarrow> string" where
  "toLowerCase s = map toLowerChar s"

fun includes_str :: "string \<Rightarrow> string \<Rightarrow> bool" where
  "includes_str [] searchString = (searchString = [])"
| "includes_str (c # s) searchString =
     (prefix searchString (c # s) \<or> includes_str s searchString)"

text \<open>
  \<open>filteredApps\<close> of \<open>OAuthAppMarketplace\<close>. \<open>allApps\<close> is the data of a query, \<open>None\<close>
  while it is \<open>undefined\<close>; \<open>allApps?.filter\<close> then gives \<open>undefined\<close> again. The query
  is lowered but not trimmed before the search.
\<close>

definition filteredApps :: "string \<Rightarrow> OAuthApp list option \<Rightarrow> OAuthApp list option" where
  "filteredApps searchQuery allApps =
     (if trim searchQuery = [] then allApps
      else
        let lowerQuery = toLowerCase searchQuery
        in map_option
             (filter (\<lambda>a. includes_str (toLowerCase (name a)) lowerQuery \<or>
                          includes_str (toLowerCase (description a)) lowerQuery))
             allApps)"

text \<open>
  The two notions the filter is stated against. A query is blank when every character
  of it is white space. A text contains a query with case ignored when, at some
  position of the text, the query can be read off character by character, two
  characters agreeing when they are the same letter in either case.
\<close>

definition blank :: "string \<Rightarrow> bool" where
  "blank q = list_all isWhiteSpace q"

fun matchesAt :: "string \<Rightarrow> string \<Rightarrow> bool" where
  "matchesAt s [] = True"
| "matchesAt [] (b # q) = False"
| "matchesAt (a # s) (b # q) = (toLowerChar a = toLowerChar b \<and> matchesAt s q)"

fun containsIgnoringCase :: "string \<Rightarrow> string \<Rightarrow> bool" where
  "containsIgnoringCase [] q = matchesAt [] q"
| "containsIgnoringCase (a # s) q = (matchesAt (a # s) q \<or> containsIgnoringCase s q)"

text \<open>Example data: a published application with the given name and description.\<close>

definition app_of :: "string \<Rightarrow> string \<Rightarrow> OAuthApp" where
  "app_of n d =
     \<lparr>app_id = 1, app_userId = 1, name = n, description = d, clientId = None,
      clientSecret = None, homepageUrl = ''https://example.com'',
      callbackUrl = ''https://example.com/callback'', isPublished = True,
      verificationStatus = ''verified'', logoUrl = None, app_createdAt = 0,
      app_updatedAt = 0, isListed = True\<rparr>"

section \<open>The server routes\<close>

subsection \<open>Requests and responses\<close>

text \<open>
  A value of a JSON body. A property that is absent reads as \<open>undefined\<close>, here \<open>None\<close>.
  \<open>truthy\<close> is JavaScript's conversion to a boolean, which \<open>!x\<close> negates.
\<close>

datatype JsValue =
    JNull
  | JBool bool
  | JNumber rat
  | JString string
  | JArray "JsValue list"
  | JObject "(string \<times> JsValue) list"

fun truthy :: "JsValue option \<Rightarrow> bool" where
  "truthy None = False"
| "truthy (Some JNull) = False"
| "truthy (Some (JBool b)) = b"
| "truthy (Some (JNumber n)) = (n \<noteq> 0)"
| "truthy (Some (JString s)) = (s \<noteq> [])"
| "truthy (Some (JArray vs)) = True"
| "truthy (Some (JObject kvs)) = True"

record User =
  user_id :: int
  user_username :: string
  user_name :: "string option"
  user_email :: string
  user_password :: "string option"
  user_credits :: int
  user_githubId :: "string option"
  user_githubUsername :: "string option"
  user_avatarUrl :: "string option"

text \<open>
  What the routes read of a request: \<open>req.isAuthenticated()\<close>, \<open>req.user\<close>, \<open>req.body\<close>
  (\<open>None\<close> when no body was parsed) and \<open>req.query\<close>, whose values the source casts to
  strings.
\<close>

record HttpRequest =
  isAuthenticated :: bool
  user :: "User option"
  body :: "(string \<rightharpoonup> JsValue) option"
  query :: "string \<rightharpoonup> string"

text \<open>\<open>res.status(n).json(x)\<close>, with \<open>x\<close> either a payload or \<open>{ message }\<close>.\<close>

datatype 'a HttpResponse = Json nat 'a | Message nat string

subsection \<open>Creating an application\<close>

text \<open>The object the route hands to \<open>storage.createOAuthApp\<close>.\<close>

record InsertOAuthApp =
  ins_userId :: int
  ins_name :: "JsValue option"
  ins_description :: "JsValue option"
  ins_homepageUrl :: "JsValue option"
  ins_callbackUrl :: "JsValue option"
  ins_logoUrl :: "JsValue option"

text \<open>
  \<open>router.post('/', requireAuth, ...)\<close>. The module \<open>./storage\<close> is not part of the
  sources: \<open>createOAuthApp\<close> is a parameter, \<open>Inl\<close> when it throws. Destructuring a body
  that is \<open>undefined\<close> throws inside the \<open>try\<close> and ends in the 500 of the \<open>catch\<close>.
\<close>

definition requireAuth :: "HttpRequest \<Rightarrow> bool" where
  "requireAuth req = (\<not> (\<not> isAuthenticated req \<or> user req = None))"

definition createOAuthApp_route ::
  "(InsertOAuthApp \<Rightarrow> 'e + 'a) \<Rightarrow> HttpRequest \<Rightarrow> 'a HttpResponse" where
  "createOAuthApp_route createOAuthApp req =
     (case user req of
        None \<Rightarrow> Message 401 ''Authentication required''
      | Some u \<Rightarrow>
          if \<not> requireAuth req then Message 401 ''Authentication required''
          else
            (case body req of
               None \<Rightarrow> Message 500 ''Failed to create OAuth app''
             | Some b \<Rightarrow>
                 if \<not> truthy (b ''name'') \<or> \<not> truthy (b ''description'') \<or>
                    \<not> truthy (b ''homepageUrl'') \<or> \<not> truthy (b ''callbackUrl'')
                 then Message 400 ''Required fields missing''
                 else
                   (case createOAuthApp
                           \<lparr>ins_userId = user_id u, ins_name = b ''name'',
                            ins_description = b ''description'',
                            ins_homepageUrl = b ''homepageUrl'',
                            ins_callbackUrl = b ''callbackUrl'',
                            ins_logoUrl = b ''logoUrl''\<rparr> of
                      Inl e \<Rightarrow> Message 500 ''Failed to create OAuth app''
                    | Inr created \<Rightarrow> Json 201 created)))"

text \<open>
  The invariant of the data model speaks of well-formed absolute URLs. What every such
  URL has is a scheme: a letter, then letters, digits, \<open>+\<close>, \<open>-\<close> or \<open>.\<close>, then a colon
  with something after it. A value that lacks this is not an absolute URL under any
  reading.
\<close>

definition isAlpha :: "char \<Rightarrow> bool" where
  "isAlpha c = (c \<in> set ''abcdefghijklmnopqrstuvwxyzABCDEFGHIJKLMNOPQRSTUVWXYZ'')"

definition isSchemeChar :: "char \<Rightarrow> bool" where
  "isSchemeChar c = (isAlpha c \<or> c \<in> set ''0123456789+-.'')"

definition hasScheme :: "string \<Rightarrow> bool" where
  "hasScheme s =
     (let scheme = takeWhile (\<lambda>c. c \<noteq> CHR '':'') s;
          rest = dropWhile (\<lambda>c. c \<noteq> CHR '':'') s
      in (case scheme of [] \<Rightarrow> False | c # cs \<Rightarrow> isAlpha c \<and> list_all isSchemeChar cs)
         \<and> length rest > 1)"

definition absoluteUrlValue :: "JsValue option \<Rightarrow> bool" where
  "absoluteUrlValue v = (case v of Some (JString s) \<Rightarrow> hasScheme s | _ \<Rightarrow> False)"

subsection \<open>The top-rated listing\<close>

text \<open>
  A number as \<open>parseInt\<close> returns it: an integer or \<open>NaN\<close>. The integer is exact; the
  rounding of a double beyond 53 bits and the sign of zero are not modelled.
\<close>

datatype JsNumber = NaN | Number int

text \<open>
  \<open>parseInt\<close> with no radix, after ECMAScript: skip leading white space, read a sign,
  take \<open>0x\<close> or \<open>0X\<close> as the mark of radix 16, read the longest run of digits of the
  radix; no digit at all gives \<open>NaN\<close>.
\<close>

definition digitValue :: "char \<Rightarrow> nat option" where
  "digitValue c =
     map_of (zip ''0123456789abcdefABCDEF''
               [0, 1, 2, 3, 4, 5, 6, 7, 8, 9, 10, 11, 12, 13, 14, 15, 10, 11, 12, 13, 14, 15]) c"

definition isDigitOf :: "nat \<Rightarrow> char \<Rightarrow> bool" where
  "isDigitOf radix c = (case digitValue c of None \<Rightarrow> False | Some d \<Rightarrow> d < radix)"

definition digitsValue :: "nat \<Rightarrow> string \<Rightarrow> nat" where
  "digitsValue radix z =
     foldl (\<lambda>acc c. acc * radix + (case digitValue c of None \<Rightarrow> 0 | Some d \<Rightarrow> d)) 0 z"

definition parseInt :: "string \<Rightarrow> JsNumber" where
  "parseInt inputString =
     (let s = dropWhile isWhiteSpace inputString;
          sign = (if prefix ''-'' s then - 1 else 1 :: int);
          s1 = (if prefix ''-'' s \<or> prefix ''+'' s then drop 1 s else s);
          radix = (if prefix ''0x'' s1 \<or> prefix ''0X'' s1 then 16 else 10 :: nat);
          s2 = (if prefix ''0x'' s1 \<or> prefix ''0X'' s1 then drop 2 s1 else s1);
          z = takeWhile (isDigitOf radix) s2
      in if z = [] then NaN else Number (sign * int (digitsValue radix z)))"

text \<open>
  \<open>router.get('/marketplace/top-rated', ...)\<close>:
  \<^verbatim>\<open>const limit = req.query.limit ? parseInt(req.query.limit as string) : 10;\<close>
  The empty string is falsy. \<open>getTopRatedOAuthApps\<close> of the missing module \<open>./storage\<close>
  is a parameter, \<open>Inl\<close> when it throws.
\<close>

definition topRated_limit :: "string option \<Rightarrow> JsNumber" where
  "topRated_limit limit_param =
     (case limit_param of
        None \<Rightarrow> Number 10
      | Some s \<Rightarrow> if s = [] then Number 10 else parseInt s)"

definition topRated_route :: "(JsNumber \<Rightarrow> 'e + 'a) \<Rightarrow> HttpRequest \<Rightarrow> 'a HttpResponse" where
  "topRated_route getTopRatedOAuthApps req =
     (let limit = topRated_limit (query req ''limit'')
      in case getTopRatedOAuthApps limit of
           Inl e \<Rightarrow> Message 500 ''Failed to fetch top-rated apps''
         | Inr apps \<Rightarrow> Json 200 apps)"

text \<open>Example data: an anonymous request with the given query string parameters.\<close>

definition request_with_query :: "(string \<rightharpoonup> string) \<Rightarrow> HttpRequest" where
  "request_with_query q = \<lparr>isAuthenticated = False, user = None, body = None, query = q\<rparr>"

text \<open>Example data: a user, and an authenticated request of user 7 with the given body.\<close>

definition user_of :: "int \<Rightarrow> User" where
  "user_of uid =
     \<lparr>user_id = uid, user_username = ''user'', user_name = None,
      user_email = ''user@example.com'', user_password = None, user_credits = 0,
      user_githubId = None, user_githubUsername = None, user_avatarUrl = None\<rparr>"

definition request_with_body :: "(string \<rightharpoonup> JsValue) \<Rightarrow> HttpRequest" where
  "request_with_body b =
     \<lparr>isAuthenticated = True, user = Some (user_of 7), body = Some b, query = Map.empty\<rparr>"

section \<open>Properties of the rating summary\<close>

subsection \<open>The histogram is the list of buckets\<close>

lemma floor_nine_halves: "\<lfloor>(9::rat) / 2\<rfloor> = 4"
  by (rule floor_unique) simp_all

lemma validRating_iff:
  "validRating review \<longleftrightarrow>
     rating review = 5 \<or> rating review = 4 \<or> rating review = 3 \<or>
     rating review = 2 \<or> rating review = 1"
  unfolding validRating_def by arith

lemma below_five: "i < 5 \<longleftrightarrow> i = 0 \<or> i = 1 \<or> i = 2 \<or> i = 3 \<or> i = (4::nat)"
  by arith

lemma countRating_length: "length (countRating counts review) = length counts"
  by (simp add: countRating_def)

lemma countRating_nth:
  assumes "length counts = 5" "i < 5"
  shows "countRating counts review ! i =
           counts ! i + (if rating review = 5 - int i then 1 else 0)"
proof (cases "rating review > 0 \<and> rating review \<le> 5")
  case True
  then have "rating review = 1 \<or> rating review = 2 \<or> rating review = 3 \<or>
             rating review = 4 \<or> rating review = 5"
    by arith
  then show ?thesis
    using assms by (auto simp: countRating_def below_five nth_list_update)
next
  case False
  with assms(2) have "rating review \<noteq> 5 - int i"
    by arith
  with False show ?thesis
    by (auto simp: countRating_def)
qed

lemma foldl_countRating_length: "length (foldl countRating counts rs) = length counts"
  by (induction rs arbitrary: counts) (simp_all add: countRating_length)

lemma foldl_countRating_nth:
  "length counts = 5 \<Longrightarrow> i < 5 \<Longrightarrow>
     foldl countRating counts rs ! i = counts ! i + bucket i rs"
proof (induction rs arbitrary: counts)
  case Nil
  then show ?case by (simp add: bucket_def)
next
  case (Cons r rs)
  have "foldl countRating (countRating counts r) rs ! i = countRating counts r ! i + bucket i rs"
    using Cons.prems by (intro Cons.IH) (simp_all add: countRating_length)
  then show ?case
    using Cons.prems by (simp add: countRating_nth bucket_def)
qed

lemma five_elements: "length xs = 5 \<Longrightarrow> xs = [xs ! 0, xs ! 1, xs ! 2, xs ! 3, xs ! 4]"
  by (auto simp: list_eq_iff_nth_eq below_five numeral_eq_Suc less_Suc_eq_0_disj)

lemma histogram_eq:
  "foldl countRating [0, 0, 0, 0, 0] rs =
     [bucket 0 rs, bucket 1 rs, bucket 2 rs, bucket 3 rs, bucket 4 rs]"
proof -
  have l: "length (foldl countRating [0, 0, 0, 0, 0] rs) = 5"
    by (simp add: foldl_countRating_length)
  have n: "foldl countRating [0, 0, 0, 0, 0] rs ! i = bucket i rs" if "i < 5" for i
    using foldl_countRating_nth[of "[0, 0, 0, 0, 0]" i rs] that by (auto simp: below_five)
  show ?thesis
    by (subst five_elements[OF l]) (simp add: n)
qed

lemma foldl_sum_ratings:
  "foldl (\<lambda>sum review. sum + rating review) a rs = a + sum_list (map rating rs)"
  by (induction rs arbitrary: a) simp_all

lemma bucket_total:
  "bucket 0 rs + bucket 1 rs + bucket 2 rs + bucket 3 rs + bucket 4 rs =
     length (filter validRating rs)"
  by (induction rs) (auto simp: bucket_def validRating_iff)

lemma bucket_filter:
  assumes "i < 5"
  shows "bucket i (filter validRating rs) = bucket i rs"
proof -
  have "rating r = 5 - int i \<Longrightarrow> validRating r" for r
    using assms unfolding validRating_def by arith
  then have "(\<lambda>r. rating r = 5 - int i \<and> validRating r) = (\<lambda>r. rating r = 5 - int i)"
    by blast
  then show ?thesis
    by (simp add: bucket_def conj_commute)
qed

lemma stats_nonempty:
  "rs \<noteq> [] \<Longrightarrow>
   calculateReviewStats (Some rs) =
     \<lparr>averageRating = Finite (of_int (sum_list (map rating rs)) / of_nat (length rs)),
      totalReviews = length rs,
      ratingCounts = [bucket 0 rs, bucket 1 rs, bucket 2 rs, bucket 3 rs, bucket 4 rs],
      percentages =
        map (\<lambda>count. (of_nat count / of_nat (length rs)) * 100)
          [bucket 0 rs, bucket 1 rs, bucket 2 rs, bucket 3 rs, bucket 4 rs]\<rparr>"
  by (simp add: calculateReviewStats_def Let_def histogram_eq foldl_sum_ratings jsDivide_def)

lemma stats_empty: "calculateReviewStats (Some []) = emptyStats"
  by (simp add: calculateReviewStats_def)

lemma stats_counts:
  "ratingCounts (calculateReviewStats (Some rs)) =
     [bucket 0 rs, bucket 1 rs, bucket 2 rs, bucket 3 rs, bucket 4 rs]"
  by (cases "rs = []") (simp_all add: stats_nonempty stats_empty emptyStats_def bucket_def)

lemma details_counts:
  "details_ratingCounts (Some rs) =
     [bucket 0 rs, bucket 1 rs, bucket 2 rs, bucket 3 rs, bucket 4 rs]"
  by (cases "rs = []") (simp_all add: details_ratingCounts_def histogram_eq bucket_def)

subsection \<open>The claims about the summary\<close>


text \<open>
  C2: for a non-empty list of reviews whose ratings are all integers in \<open>1..5\<close>, the
  five buckets of the histogram add up to the total, which is the length of the list;
  bucket \<open>i\<close> counts the reviews with rating \<open>5 - i\<close> (on the details page as well);
  percentage \<open>i\<close> is bucket \<open>i\<close> divided by the total, times 100; and the five
  percentages add up to 100 (exactly, in the exact arithmetic of the model).
\<close>

theorem summary_of_valid_reviews:
  assumes "rs \<noteq> []" and "list_all validRating rs"
  shows
    "sum_list (ratingCounts (calculateReviewStats (Some rs))) =
       totalReviews (calculateReviewStats (Some rs))
     \<and> totalReviews (calculateReviewStats (Some rs)) = length rs
     \<and> ratingCounts (calculateReviewStats (Some rs)) = map (\<lambda>i. bucket i rs) [0, 1, 2, 3, 4]
     \<and> details_ratingCounts (Some rs) = map (\<lambda>i. bucket i rs) [0, 1, 2, 3, 4]
     \<and> percentages (calculateReviewStats (Some rs)) =
         map (\<lambda>i. of_nat (ratingCounts (calculateReviewStats (Some rs)) ! i)
                    / of_nat (totalReviews (calculateReviewStats (Some rs))) * 100)
           [0, 1, 2, 3, 4]
     \<and> sum_list (percentages (calculateReviewStats (Some rs))) = 100"
proof -
  let ?n = "length rs"
  from assms(2) have "filter validRating rs = rs"
    by (simp add: list_all_iff)
  with bucket_total[of rs]
  have total: "bucket 0 rs + bucket 1 rs + bucket 2 rs + bucket 3 rs + bucket 4 rs = ?n"
    by simp
  from assms(1) have pos: "(of_nat ?n :: rat) \<noteq> 0"
    by simp
  have "(of_nat (bucket 0 rs) + of_nat (bucket 1 rs) + of_nat (bucket 2 rs)
          + of_nat (bucket 3 rs) + of_nat (bucket 4 rs) :: rat) = of_nat ?n"
    using total by (metis of_nat_add)
  then have "(of_nat (bucket 0 rs) / of_nat ?n * 100 + of_nat (bucket 1 rs) / of_nat ?n * 100
      + of_nat (bucket 2 rs) / of_nat ?n * 100 + of_nat (bucket 3 rs) / of_nat ?n * 100
      + of_nat (bucket 4 rs) / of_nat ?n * 100 :: rat) = 100"
    using pos by (simp add: field_simps)
  then have pct: "sum_list (percentages (calculateReviewStats (Some rs))) = 100"
    using assms(1) by (simp add: stats_nonempty add.assoc)
  show ?thesis
    using assms(1) total pct by (simp add: stats_nonempty details_counts)
qed

theorem summary_of_valid_reviews_witness:
  "calculateReviewStats (Some [review_of 1 5, review_of 2 1]) =
     \<lparr>averageRating = Finite 3, totalReviews = 2, ratingCounts = [1, 0, 0, 0, 1],
      percentages = [50, 0, 0, 0, 50]\<rparr>
   \<and> sum_list (ratingCounts (calculateReviewStats (Some [review_of 1 5, review_of 2 1]))) = 2
   \<and> sum_list (percentages (calculateReviewStats (Some [review_of 1 5, review_of 2 1]))) = 100"
proof -
  have nonempty: "[review_of 1 5, review_of 2 1] \<noteq> []"
    by simp
  have valid: "list_all validRating [review_of 1 5, review_of 2 1]"
    by (simp add: validRating_def review_of_def)
  have computed: "calculateReviewStats (Some [review_of 1 5, review_of 2 1]) =
     \<lparr>averageRating = Finite 3, totalReviews = 2, ratingCounts = [1, 0, 0, 0, 1],
      percentages = [50, 0, 0, 0, 50]\<rparr>"
    by (simp add: calculateReviewStats_def countRating_def review_of_def jsDivide_def)
  from summary_of_valid_reviews[OF nonempty valid] computed show ?thesis
    by simp
qed

text \<open>
  C1, as the code has it: for every list of reviews with whole-number ratings, the
  histogram leaves out every entry whose rating is outside \<open>1..5\<close>. Bucket \<open>i\<close>
  counts the entries with rating \<open>5 - i\<close> and nothing else, so the histogram is that
  of the valid entries alone and its buckets add up to their number, on the reviews
  page and on the details page. The summary has no field that reports the number of
  entries left out.
\<close>

theorem histogram_excludes_invalid:
  "ratingCounts (calculateReviewStats (Some rs)) = map (\<lambda>i. bucket i rs) [0, 1, 2, 3, 4]
   \<and> ratingCounts (calculateReviewStats (Some rs)) =
       ratingCounts (calculateReviewStats (Some (filter validRating rs)))
   \<and> details_ratingCounts (Some rs) = ratingCounts (calculateReviewStats (Some rs))
   \<and> sum_list (ratingCounts (calculateReviewStats (Some rs))) =
       length (filter validRating rs)"
proof -
  have counts: "ratingCounts (calculateReviewStats (Some rs)) =
     ratingCounts (calculateReviewStats (Some (filter validRating rs)))"
    by (simp add: stats_counts bucket_filter)
  have total: "sum_list (ratingCounts (calculateReviewStats (Some rs))) =
       length (filter validRating rs)"
    using bucket_total[of rs] by (simp add: stats_counts)
  from counts total show ?thesis
    by (simp add: stats_counts details_counts)
qed

theorem histogram_excludes_invalid_witness:
  "ratingCounts (calculateReviewStats
      (Some [review_of 1 5, review_of 2 7, review_of 3 0, review_of 4 (- 2), review_of 5 4]))
     = [1, 1, 0, 0, 0]
   \<and> filter validRating
        [review_of 1 5, review_of 2 7, review_of 3 0, review_of 4 (- 2), review_of 5 4]
     = [review_of 1 5, review_of 5 4]
   \<and> details_ratingCounts
        (Some [review_of 1 5, review_of 2 7, review_of 3 0, review_of 4 (- 2), review_of 5 4])
     = [1, 1, 0, 0, 0]"
  using histogram_excludes_invalid
          [of "[review_of 1 5, review_of 2 7, review_of 3 0, review_of 4 (- 2), review_of 5 4]"]
  by (simp add: bucket_def validRating_def review_of_def)

theorem out_of_range_counterexample:
  "calculateReviewStats (Some [review_of 1 5, review_of 2 7]) =
     \<lparr>averageRating = Finite 6, totalReviews = 2, ratingCounts = [1, 0, 0, 0, 0],
      percentages = [50, 0, 0, 0, 0]\<rparr>
   \<and> filter validRating [review_of 1 5, review_of 2 7] = [review_of 1 5]
   \<and> calculateReviewStats (Some [review_of 1 5]) =
     \<lparr>averageRating = Finite 5, totalReviews = 1, ratingCounts = [1, 0, 0, 0, 0],
      percentages = [100, 0, 0, 0, 0]\<rparr>
   \<and> details_averageRating (Some [review_of 1 5, review_of 2 7]) = Finite 6"
  by (simp add: calculateReviewStats_def countRating_def review_of_def
      validRating_def details_averageRating_def jsDivide_def)

text \<open>
  C8, at the marketplace card: the star figure is computed from the value drawn by
  \<open>Math.random()\<close> and from nothing else. For one and the same application a draw of 0
  shows 1 star and a draw of 0.9 shows 5 stars.
\<close>

theorem AppCard_stars_random:
  "AppCard_stars (app_of ''Mailer'' ''Sends letters'') 0 = 1
   \<and> AppCard_stars (app_of ''Mailer'' ''Sends letters'') (9 / 10) = 5"
  by (simp add: AppCard_stars_def floor_nine_halves)

section \<open>Properties of review submission\<close>

text \<open>
  C3: for every existing review collection and every candidate whose \<open>userId\<close> already
  appears in it, validation fails with \<open>DuplicateReviewError\<close>, whatever the rating and
  the text of the candidate are; so a candidate is accepted only when its user has no
  review in the collection yet.
\<close>

theorem validateSubmission_duplicate:
  "(cand_userId candidate \<in> userId ` set existingReviews \<longrightarrow>
      validateSubmission existingReviews candidate = Inl DuplicateReviewError)
   \<and> (validateSubmission existingReviews candidate = Inr accepted \<longrightarrow>
        cand_userId candidate \<notin> userId ` set existingReviews)"
  by (simp add: validateSubmission_def)

theorem validateSubmission_duplicate_witness:
  "validateSubmission [review_of 1 4, review_of 2 5]
     \<lparr>cand_userId = 2, cand_rating = 3, cand_text = Some ''Fine''\<rparr>
     = Inl DuplicateReviewError
   \<and> validateSubmission [review_of 1 4, review_of 2 5]
     \<lparr>cand_userId = 2, cand_rating = 0, cand_text = None\<rparr>
     = Inl DuplicateReviewError
   \<and> validateSubmission [review_of 1 4, review_of 2 5]
     \<lparr>cand_userId = 3, cand_rating = 3, cand_text = Some ''Fine''\<rparr>
     = Inr \<lparr>cand_userId = 3, cand_rating = 3, cand_text = Some ''Fine''\<rparr>
   \<and> (3::int) \<notin> userId ` set [review_of 1 4, review_of 2 5]"
proof -
  have first: "cand_userId \<lparr>cand_userId = 2, cand_rating = 3, cand_text = Some ''Fine''\<rparr>
                 \<in> userId ` set [review_of 1 4, review_of 2 5]"
    by (simp add: review_of_def)
  have second: "cand_userId \<lparr>cand_userId = 2, cand_rating = 0, cand_text = None\<rparr>
                  \<in> userId ` set [review_of 1 4, review_of 2 5]"
    by (simp add: review_of_def)
  have third: "validateSubmission [review_of 1 4, review_of 2 5]
                 \<lparr>cand_userId = 3, cand_rating = 3, cand_text = Some ''Fine''\<rparr>
               = Inr \<lparr>cand_userId = 3, cand_rating = 3, cand_text = Some ''Fine''\<rparr>"
    by (simp add: validateSubmission_def validRatingValue_def review_of_def)
  from validateSubmission_duplicate
         [of "\<lparr>cand_userId = 2, cand_rating = 3, cand_text = Some ''Fine''\<rparr>"
             "[review_of 1 4, review_of 2 5]"] first
  have a: "validateSubmission [review_of 1 4, review_of 2 5]
             \<lparr>cand_userId = 2, cand_rating = 3, cand_text = Some ''Fine''\<rparr>
           = Inl DuplicateReviewError"
    by blast
  from validateSubmission_duplicate
         [of "\<lparr>cand_userId = 2, cand_rating = 0, cand_text = None\<rparr>"
             "[review_of 1 4, review_of 2 5]"] second
  have b: "validateSubmission [review_of 1 4, review_of 2 5]
             \<lparr>cand_userId = 2, cand_rating = 0, cand_text = None\<rparr>
           = Inl DuplicateReviewError"
    by blast
  from validateSubmission_duplicate
         [of "\<lparr>cand_userId = 3, cand_rating = 3, cand_text = Some ''Fine''\<rparr>"
             "[review_of 1 4, review_of 2 5]"
             "\<lparr>cand_userId = 3, cand_rating = 3, cand_text = Some ''Fine''\<rparr>"] third
  have c: "(3::int) \<notin> userId ` set [review_of 1 4, review_of 2 5]"
    by simp
  from a b third c show ?thesis
    by blast
qed




section \<open>Properties of the marketplace page\<close>

lemma dropWhile_all: "(\<forall>x \<in> set (dropWhile P s). P x) \<longleftrightarrow> dropWhile P s = []"
proof
  assume every: "\<forall>x \<in> set (dropWhile P s). P x"
  show "dropWhile P s = []"
  proof (rule ccontr)
    assume rest: "dropWhile P s \<noteq> []"
    then have "\<not> P (hd (dropWhile P s))"
      by (rule hd_dropWhile)
    moreover from rest have "hd (dropWhile P s) \<in> set (dropWhile P s)"
      by (rule hd_in_set)
    ultimately show False
      using every by blast
  qed
next
  assume "dropWhile P s = []"
  then show "\<forall>x \<in> set (dropWhile P s). P x"
    by (simp del: dropWhile_eq_Nil_conv)
qed

lemma trim_empty: "trim s = [] \<longleftrightarrow> blank s"
  by (simp add: trim_def blank_def dropWhile_eq_Nil_conv dropWhile_all list_all_iff)

lemma includes_str_iff: "includes_str s q \<longleftrightarrow> (\<exists>before after. s = before @ q @ after)"
proof -
  have "includes_str s q \<longleftrightarrow> sublist q s"
    by (induction s) (simp_all add: sublist_Cons_right)
  then show ?thesis
    by (simp add: sublist_def)
qed

lemma matchesAt_prefix: "matchesAt s q \<longleftrightarrow> prefix (toLowerCase q) (toLowerCase s)"
  by (induction s q rule: matchesAt.induct) (auto simp: toLowerCase_def)

lemma includes_lowered:
  "includes_str (toLowerCase s) (toLowerCase q) \<longleftrightarrow> containsIgnoringCase s q"
proof (induction s)
  case Nil
  show ?case
    by (cases q) (simp_all add: toLowerCase_def)
next
  case (Cons a s)
  have "includes_str (toLowerCase (a # s)) (toLowerCase q) \<longleftrightarrow>
          prefix (toLowerCase q) (toLowerCase (a # s)) \<or>
          includes_str (toLowerCase s) (toLowerCase q)"
    by (simp add: toLowerCase_def)
  then show ?case
    using Cons by (simp add: matchesAt_prefix)
qed

text \<open>
  C10: for every loaded list of applications, a query that is empty or all white space
  gives the list back unchanged; any other query keeps, in their order, exactly the
  applications whose name or description contains the query with case ignored.
\<close>

theorem filteredApps_spec:
  "filteredApps q (Some apps) =
     Some (if blank q then apps
           else filter (\<lambda>a. containsIgnoringCase (name a) q \<or>
                            containsIgnoringCase (description a) q) apps)"
  by (simp add: filteredApps_def trim_empty includes_lowered Let_def)

theorem filteredApps_spec_witness:
  "filteredApps ''MAIL''
     (Some [app_of ''Mailer'' ''Sends letters'', app_of ''Chat'' ''Talk to friends'',
            app_of ''Inbox'' ''Reads your e-mail''])
     = Some [app_of ''Mailer'' ''Sends letters'', app_of ''Inbox'' ''Reads your e-mail'']
   \<and> filteredApps [CHR '' '', CHR 0x09, CHR '' '']
        (Some [app_of ''Mailer'' ''Sends letters'', app_of ''Chat'' ''Talk to friends''])
     = Some [app_of ''Mailer'' ''Sends letters'', app_of ''Chat'' ''Talk to friends'']
   \<and> filteredApps ''''
        (Some [app_of ''Mailer'' ''Sends letters'', app_of ''Chat'' ''Talk to friends''])
     = Some [app_of ''Mailer'' ''Sends letters'', app_of ''Chat'' ''Talk to friends'']"
  using
    filteredApps_spec[of "''MAIL''"
      "[app_of ''Mailer'' ''Sends letters'', app_of ''Chat'' ''Talk to friends'',
        app_of ''Inbox'' ''Reads your e-mail'']"]
    filteredApps_spec[of "[CHR '' '', CHR 0x09, CHR '' '']"
      "[app_of ''Mailer'' ''Sends letters'', app_of ''Chat'' ''Talk to friends'']"]
    filteredApps_spec[of "''''"
      "[app_of ''Mailer'' ''Sends letters'', app_of ''Chat'' ''Talk to friends'']"]
  by (simp add: blank_def isWhiteSpace_def app_of_def toLowerChar_def)

section \<open>Properties of the server routes\<close>

text \<open>
  C7, at the creation route: a request of an authenticated user whose \<open>homepageUrl\<close>
  is the text \<open>not a url\<close> and whose \<open>callbackUrl\<close> is the text \<open>callback\<close>, neither of
  them an absolute URL, is not answered 400. Whatever the store is, the route hands
  it the two values as they are and answers 201 with what the store returns, or 500
  when the store throws.
\<close>

theorem createOAuthApp_route_passes_malformed_url:
  "\<forall>store.
     createOAuthApp_route store
       (request_with_body
          [''name'' \<mapsto> JString ''Mailer'', ''description'' \<mapsto> JString ''Sends letters'',
           ''homepageUrl'' \<mapsto> JString ''not a url'', ''callbackUrl'' \<mapsto> JString ''callback''])
     = (case store \<lparr>ins_userId = 7, ins_name = Some (JString ''Mailer''),
                     ins_description = Some (JString ''Sends letters''),
                     ins_homepageUrl = Some (JString ''not a url''),
                     ins_callbackUrl = Some (JString ''callback''), ins_logoUrl = None\<rparr> of
          Inl e \<Rightarrow> Message 500 ''Failed to create OAuth app''
        | Inr created \<Rightarrow> Json 201 created)
     \<and> \<not> absoluteUrlValue (Some (JString ''not a url''))
     \<and> \<not> absoluteUrlValue (Some (JString ''callback''))"
  by (simp add: createOAuthApp_route_def requireAuth_def request_with_body_def user_of_def
      absoluteUrlValue_def hasScheme_def isAlpha_def isSchemeChar_def)

theorem createOAuthApp_route_passes_malformed_url_witness:
  "createOAuthApp_route (Inr :: InsertOAuthApp \<Rightarrow> unit + InsertOAuthApp)
     (request_with_body
        [''name'' \<mapsto> JString ''Mailer'', ''description'' \<mapsto> JString ''Sends letters'',
         ''homepageUrl'' \<mapsto> JString ''not a url'', ''callbackUrl'' \<mapsto> JString ''callback''])
   = Json 201 \<lparr>ins_userId = 7, ins_name = Some (JString ''Mailer''),
        ins_description = Some (JString ''Sends letters''),
        ins_homepageUrl = Some (JString ''not a url''),
        ins_callbackUrl = Some (JString ''callback''), ins_logoUrl = None\<rparr>
   \<and> createOAuthApp_route ((\<lambda>_. Inl ()) :: InsertOAuthApp \<Rightarrow> unit + InsertOAuthApp)
     (request_with_body
        [''name'' \<mapsto> JString ''Mailer'', ''description'' \<mapsto> JString ''Sends letters'',
         ''homepageUrl'' \<mapsto> JString ''not a url'', ''callbackUrl'' \<mapsto> JString ''callback''])
   = Message 500 ''Failed to create OAuth app''"
proof -
  note every = createOAuthApp_route_passes_malformed_url
  from every have accepting:
    "createOAuthApp_route (Inr :: InsertOAuthApp \<Rightarrow> unit + InsertOAuthApp)
       (request_with_body
          [''name'' \<mapsto> JString ''Mailer'', ''description'' \<mapsto> JString ''Sends letters'',
           ''homepageUrl'' \<mapsto> JString ''not a url'', ''callbackUrl'' \<mapsto> JString ''callback''])
     = (case (Inr :: InsertOAuthApp \<Rightarrow> unit + InsertOAuthApp)
               \<lparr>ins_userId = 7, ins_name = Some (JString ''Mailer''),
                ins_description = Some (JString ''Sends letters''),
                ins_homepageUrl = Some (JString ''not a url''),
                ins_callbackUrl = Some (JString ''callback''), ins_logoUrl = None\<rparr> of
          Inl e \<Rightarrow> Message 500 ''Failed to create OAuth app''
        | Inr created \<Rightarrow> Json 201 created)"
    by blast
  from every have rejecting:
    "createOAuthApp_route ((\<lambda>_. Inl ()) :: InsertOAuthApp \<Rightarrow> unit + InsertOAuthApp)
       (request_with_body
          [''name'' \<mapsto> JString ''Mailer'', ''description'' \<mapsto> JString ''Sends letters'',
           ''homepageUrl'' \<mapsto> JString ''not a url'', ''callbackUrl'' \<mapsto> JString ''callback''])
     = (case ((\<lambda>_. Inl ()) :: InsertOAuthApp \<Rightarrow> unit + InsertOAuthApp)
               \<lparr>ins_userId = 7, ins_name = Some (JString ''Mailer''),
                ins_description = Some (JString ''Sends letters''),
                ins_homepageUrl = Some (JString ''not a url''),
                ins_callbackUrl = Some (JString ''callback''), ins_logoUrl = None\<rparr> of
          Inl e \<Rightarrow> Message 500 ''Failed to create OAuth app''
        | Inr created \<Rightarrow> Json 201 created)"
    by blast
  from accepting rejecting show ?thesis
    by simp
qed

text \<open>
  C9, as the code has it: a request to the top-rated listing that carries no \<open>limit\<close>
  parameter, or an empty one, asks the store for exactly 10 applications; when the
  parameter is present and not empty, the store is asked for its \<open>parseInt\<close>.
\<close>

theorem topRated_route_limit:
  "(query req ''limit'' = None \<or> query req ''limit'' = Some '''' \<longrightarrow>
      topRated_limit (query req ''limit'') = Number 10 \<and>
      topRated_route store req =
        (case store (Number 10) of
           Inl e \<Rightarrow> Message 500 ''Failed to fetch top-rated apps''
         | Inr apps \<Rightarrow> Json 200 apps))
   \<and> (query req ''limit'' = Some s \<and> s \<noteq> '''' \<longrightarrow>
      topRated_limit (query req ''limit'') = parseInt s \<and>
      topRated_route store req =
        (case store (parseInt s) of
           Inl e \<Rightarrow> Message 500 ''Failed to fetch top-rated apps''
         | Inr apps \<Rightarrow> Json 200 apps))"
  by (auto simp: topRated_route_def topRated_limit_def)

theorem topRated_route_limit_witness:
  "topRated_route (Inr :: JsNumber \<Rightarrow> unit + JsNumber) (request_with_query Map.empty)
     = Json 200 (Number 10)
   \<and> topRated_route (Inr :: JsNumber \<Rightarrow> unit + JsNumber)
        (request_with_query [''limit'' \<mapsto> ''25''])
     = Json 200 (Number 25)
   \<and> topRated_route (Inr :: JsNumber \<Rightarrow> unit + JsNumber)
        (request_with_query [''limit'' \<mapsto> '' -0x1F apps''])
     = Json 200 (Number (- 31))
   \<and> topRated_route (Inr :: JsNumber \<Rightarrow> unit + JsNumber)
        (request_with_query [''limit'' \<mapsto> ''ten''])
     = Json 200 NaN"
proof -
  let ?store = "Inr :: JsNumber \<Rightarrow> unit + JsNumber"
  note topRated_route_limit
         [where req = "request_with_query Map.empty" and s = "''''" and store = ?store]
       topRated_route_limit
         [where req = "request_with_query [''limit'' \<mapsto> ''25'']" and s = "''25''"
            and store = ?store]
       topRated_route_limit
         [where req = "request_with_query [''limit'' \<mapsto> '' -0x1F apps'']"
            and s = "'' -0x1F apps''" and store = ?store]
       topRated_route_limit
         [where req = "request_with_query [''limit'' \<mapsto> ''ten'']" and s = "''ten''"
            and store = ?store]
  then show ?thesis
    by (simp add: request_with_query_def parseInt_def isWhiteSpace_def isDigitOf_def
        digitValue_def digitsValue_def)
qed

theorem empty_limit_counterexample:
  "query (request_with_query [''limit'' \<mapsto> '''']) ''limit'' = Some ''''
   \<and> topRated_limit (query (request_with_query [''limit'' \<mapsto> '''']) ''limit'') = Number 10
   \<and> parseInt '''' = NaN
   \<and> topRated_route (Inr :: JsNumber \<Rightarrow> unit + JsNumber)
        (request_with_query [''limit'' \<mapsto> ''''])
       = Json 200 (Number 10)"
  by (simp add: topRated_route_def topRated_limit_def request_with_query_def parseInt_def)

end
